theory Spec2Isabelle
  imports Complex_Main
begin

section \<open>Data model\<close>

text \<open>
  The booking and payment lifecycle of the events server: the Mongoose models
  \<^verbatim>\<open>Booking\<close> and \<^verbatim>\<open>Event\<close>, the booking controller and the payment service.

  Conventions of the embedding.
  \<^item> An ObjectId is a natural number; identifiers that reach the code are well-formed.
  \<^item> A JavaScript Number holding a count is an \<open>int\<close>; one holding money is a \<open>rat\<close>,
    and an amount of cents divided by 100 is the exact hundredth (in the code, the double
    nearest to it). A product that the code rounds to an integer is not computed here
    but taken from the runtime (record \<open>runtime\<close>), since its floating-point error
    can change the integer; so is \<^verbatim>\<open>parseInt\<close>.
  \<^item> A collection is the list of its documents in insertion order; \<^verbatim>\<open>findOne\<close> and
    \<^verbatim>\<open>findById\<close> return the first match, an update by \<^verbatim>\<open>_id\<close> changes the first match.
  \<^item> A thrown \<^verbatim>\<open>Error\<close> is \<open>Inl\<close> of its message; a controller returns its HTTP response.
  \<^item> The payment gateway (Stripe) is a parameter: a record of functions giving the answer
    of each call, \<open>None\<close> when the call throws.
  \<^item> The messages the repository writes are verbatim; the message of an error raised by
    Mongoose or by the gateway is shortened to its kind.
  \<^item> \<^verbatim>\<open>save()\<close> on a loaded document validates the document, the paths the caller left
    alone included. The paths of an event or a booking that the model does not hold, and
    the stored users, are taken to be valid.
\<close>

type_synonym oid = nat

datatype booking_status = Pending | Confirmed | Cancelled | Completed | Refunded | Disputed

datatype payment_status = PayPending | Paid | PayFailed | PayRefunded

datatype event_status = Draft | Open | Full | EvCancelled | EvCompleted

datatype user_role = USER | HOST | ADMIN

text \<open>\<^verbatim>\<open>IEvent\<close>, the fields the booking code reads or writes.\<close>

record event =
  e_id :: oid
  e_hostId :: oid
  date :: nat
  maxParticipants :: int
  currentParticipants :: int
  price :: rat
  e_status :: event_status
  participants :: "oid list"

text \<open>\<^verbatim>\<open>IBooking\<close>: a stored booking document. The paths the schema marks
  \<^verbatim>\<open>required\<close> are always present in a stored document.\<close>

record booking =
  b_id :: oid
  userId :: oid
  eventId :: oid
  hostId :: oid
  status :: booking_status
  paymentStatus :: payment_status
  paymentIntentId :: "string option"
  amount :: rat
  quantity :: int
  currency :: string
  refundId :: "string option"
  refundAmount :: "rat option"
  refundReason :: "string option"
  specialRequests :: "string option"
  b_notes :: "string option"

text \<open>The object literal handed to \<^verbatim>\<open>new Booking({...})\<close> or \<^verbatim>\<open>Booking.create({...})\<close>:
  every path may be absent.\<close>

record booking_doc =
  d_userId :: "oid option"
  d_eventId :: "oid option"
  d_hostId :: "oid option"
  d_status :: "booking_status option"
  d_paymentStatus :: "payment_status option"
  d_paymentIntentId :: "string option"
  d_amount :: "rat option"
  d_quantity :: "int option"
  d_currency :: "string option"
  d_specialRequests :: "string option"
  d_notes :: "string option"

record user =
  u_id :: oid
  joinedEvents :: "oid list"

text \<open>\<^verbatim>\<open>req.user\<close>, as the \<^verbatim>\<open>authenticate\<close> middleware loads it.\<close>

record actor =
  a_id :: oid
  a_role :: user_role

text \<open>A Stripe PaymentIntent, with the three metadata keys the service reads.
  Metadata values are strings at the gateway; the two identifiers are kept as ObjectIds.\<close>

record intent =
  pi_id :: string
  pi_status :: string
  pi_amount :: int
  pi_currency :: string
  md_eventId :: "oid option"
  md_userId :: "oid option"
  md_quantity :: "string option"

datatype gw_call =
  GwCreate int
  | GwRetrieve "string option"
  | GwRefund "string option" int

text \<open>The three gateway calls of the service: \<^verbatim>\<open>paymentIntents.create\<close> (amount,
  currency, and the metadata event, user, quantity) answers the id and the client secret;
  \<^verbatim>\<open>paymentIntents.retrieve\<close> answers the intent; \<^verbatim>\<open>refunds.create\<close> (intent, amount)
  answers the id of the refund.\<close>

record gateway =
  paymentIntents_create :: "int \<Rightarrow> string \<Rightarrow> oid \<Rightarrow> oid \<Rightarrow> int \<Rightarrow> (string \<times> string) option"
  paymentIntents_retrieve :: "string option \<Rightarrow> intent option"
  refunds_create :: "string option \<Rightarrow> int \<Rightarrow> string option"

text \<open>What the code takes from the process and from the JavaScript runtime: the date at
  which the event schema was defined (its \<^verbatim>\<open>min: new Date()\<close>), the product
  \<^verbatim>\<open>price * quantity\<close>, \<^verbatim>\<open>Math.round(x * 100)\<close>, both in double arithmetic, and
  \<^verbatim>\<open>parseInt\<close> (\<open>None\<close> is \<^verbatim>\<open>NaN\<close>). Nothing is assumed of them.\<close>

record runtime =
  started :: nat
  js_times :: "rat \<Rightarrow> int \<Rightarrow> rat"
  js_cents :: "rat \<Rightarrow> int"
  js_parseInt :: "string \<Rightarrow> int option"

text \<open>The database, the next fresh \<^verbatim>\<open>_id\<close>, and the log of gateway calls made so far.\<close>

record db =
  events :: "event list"
  bookings :: "booking list"
  users :: "user list"
  nextId :: oid
  gwCalls :: "gw_call list"

text \<open>\<^verbatim>\<open>successResponse(res, data, message, code?)\<close> and \<^verbatim>\<open>errorResponse(res, message, code)\<close>.\<close>

datatype response =
  SuccessResponse "booking option" string "nat option"
  | ErrorResponse string nat

section \<open>Collections\<close>

fun update_first :: "('a \<Rightarrow> bool) \<Rightarrow> ('a \<Rightarrow> 'a) \<Rightarrow> 'a list \<Rightarrow> 'a list" where
  "update_first P f [] = []"
| "update_first P f (x # xs) = (if P x then f x # xs else x # update_first P f xs)"

definition Event_findById :: "db \<Rightarrow> oid \<Rightarrow> event option" where
  "Event_findById s i = find (\<lambda>e. e_id e = i) (events s)"

definition Booking_findById :: "db \<Rightarrow> oid \<Rightarrow> booking option" where
  "Booking_findById s i = find (\<lambda>b. b_id b = i) (bookings s)"

definition User_findById :: "db \<Rightarrow> oid \<Rightarrow> user option" where
  "User_findById s i = find (\<lambda>u. u_id u = i) (users s)"

text \<open>An update of the booking with that \<^verbatim>\<open>_id\<close>: \<open>f\<close> is the change of its paths.\<close>

definition Booking_update :: "oid \<Rightarrow> (booking \<Rightarrow> booking) \<Rightarrow> db \<Rightarrow> db" where
  "Booking_update i f s = s\<lparr>bookings := update_first (\<lambda>b. b_id b = i) f (bookings s)\<rparr>"

definition User_update :: "oid \<Rightarrow> (user \<Rightarrow> user) \<Rightarrow> db \<Rightarrow> db" where
  "User_update i f s = s\<lparr>users := update_first (\<lambda>u. u_id u = i) f (users s)\<rparr>"

text \<open>\<^verbatim>\<open>eventSchema.pre('save')\<close>.\<close>

definition pre_save :: "event \<Rightarrow> event" where
  "pre_save this =
     (if currentParticipants this \<ge> maxParticipants this then this\<lparr>e_status := Full\<rparr>
      else if e_status this = Full \<and> currentParticipants this < maxParticipants this
           then this\<lparr>e_status := Open\<rparr>
      else this)"

text \<open>The validators of \<^verbatim>\<open>eventSchema\<close> on the paths of the model: \<^verbatim>\<open>date\<close> not before
  the date the schema was defined, \<^verbatim>\<open>maxParticipants\<close> from 1 to 1000,
  \<^verbatim>\<open>currentParticipants\<close> at least 0, \<^verbatim>\<open>price\<close> from 0 to 10000.\<close>

definition event_valid :: "runtime \<Rightarrow> event \<Rightarrow> bool" where
  "event_valid rt e =
     (started rt \<le> date e \<and> 1 \<le> maxParticipants e \<and> maxParticipants e \<le> 1000
      \<and> 0 \<le> currentParticipants e \<and> 0 \<le> price e \<and> price e \<le> 10000)"

text \<open>\<^verbatim>\<open>event.save()\<close>: validation, then the hook, then the write.\<close>

definition Event_save :: "runtime \<Rightarrow> event \<Rightarrow> db \<Rightarrow> string + db" where
  "Event_save rt e s =
     (if \<not> event_valid rt e then Inl ''Event validation failed''
      else Inr (s\<lparr>events := update_first (\<lambda>x. e_id x = e_id e) (\<lambda>_. pre_save e) (events s)\<rparr>))"

text \<open>\<^verbatim>\<open>Event.findByIdAndUpdate(id, { $inc: { currentParticipants: n } })\<close>: an update
  query; it runs neither the validators nor the \<^verbatim>\<open>save\<close> hook.\<close>

definition Event_inc :: "oid \<Rightarrow> int \<Rightarrow> db \<Rightarrow> db" where
  "Event_inc i n s =
     s\<lparr>events := update_first (\<lambda>e. e_id e = i)
                   (\<lambda>e. e\<lparr>currentParticipants := currentParticipants e + n\<rparr>) (events s)\<rparr>"

text \<open>The validators of \<^verbatim>\<open>bookingSchema\<close> on a new document: \<^verbatim>\<open>required\<close> on
  \<^verbatim>\<open>userId\<close>, \<^verbatim>\<open>eventId\<close>, \<^verbatim>\<open>hostId\<close>, \<^verbatim>\<open>amount\<close>, \<^verbatim>\<open>quantity\<close>; \<^verbatim>\<open>min\<close> on
  \<^verbatim>\<open>amount\<close> and \<^verbatim>\<open>quantity\<close>; \<^verbatim>\<open>maxlength\<close> on the two texts. The result is the stored
  document with the schema defaults filled in.\<close>

definition maxlength :: "nat \<Rightarrow> string option \<Rightarrow> bool" where
  "maxlength n v = (case v of None \<Rightarrow> True | Some t \<Rightarrow> length t \<le> n)"

definition Booking_validate :: "oid \<Rightarrow> booking_doc \<Rightarrow> booking option" where
  "Booking_validate i d =
     (case (d_userId d, d_eventId d, d_hostId d, d_amount d, d_quantity d) of
        (Some u, Some e, Some h, Some a, Some q) \<Rightarrow>
          if 0 \<le> a \<and> 1 \<le> q \<and> maxlength 500 (d_specialRequests d) \<and> maxlength 1000 (d_notes d)
          then Some \<lparr>b_id = i, userId = u, eventId = e, hostId = h,
                     status = (case d_status d of None \<Rightarrow> Pending | Some st \<Rightarrow> st),
                     paymentStatus = (case d_paymentStatus d of None \<Rightarrow> PayPending | Some p \<Rightarrow> p),
                     paymentIntentId = d_paymentIntentId d,
                     amount = a, quantity = q,
                     currency = (case d_currency d of None \<Rightarrow> ''usd'' | Some c \<Rightarrow> c),
                     refundId = None, refundAmount = None, refundReason = None,
                     specialRequests = d_specialRequests d, b_notes = d_notes d\<rparr>
          else None
      | _ \<Rightarrow> None)"

text \<open>The validators of \<^verbatim>\<open>bookingSchema\<close> on a loaded booking: \<^verbatim>\<open>min\<close> on \<^verbatim>\<open>amount\<close>,
  \<^verbatim>\<open>quantity\<close> and \<^verbatim>\<open>refundAmount\<close>, \<^verbatim>\<open>maxlength\<close> on the three texts.\<close>

definition booking_valid :: "booking \<Rightarrow> bool" where
  "booking_valid b =
     (0 \<le> amount b \<and> 1 \<le> quantity b
      \<and> (case refundAmount b of None \<Rightarrow> True | Some a \<Rightarrow> 0 \<le> a)
      \<and> maxlength 500 (refundReason b) \<and> maxlength 500 (specialRequests b)
      \<and> maxlength 1000 (b_notes b))"

text \<open>\<^verbatim>\<open>booking.save()\<close> on the loaded \<open>booking\<close> after the assignments \<open>f\<close>: validation,
  then the write of the modified paths to the document with that \<^verbatim>\<open>_id\<close>.\<close>

definition Booking_save :: "booking \<Rightarrow> (booking \<Rightarrow> booking) \<Rightarrow> db \<Rightarrow> string + db" where
  "Booking_save booking f s =
     (if \<not> booking_valid (f booking) then Inl ''Booking validation failed''
      else Inr (Booking_update (b_id booking) f s))"

text \<open>\<^verbatim>\<open>new Booking(d).save()\<close> (also \<^verbatim>\<open>Booking.create(d)\<close>): validation, then the insert,
  which the unique index \<^verbatim>\<open>{ userId: 1, eventId: 1 }\<close> rejects for a pair already stored.\<close>

definition Booking_create :: "booking_doc \<Rightarrow> db \<Rightarrow> string + (booking \<times> db)" where
  "Booking_create d s =
     (case Booking_validate (nextId s) d of
        None \<Rightarrow> Inl ''Booking validation failed''
      | Some b \<Rightarrow>
          if (userId b, eventId b) \<in> set (map (\<lambda>x. (userId x, eventId x)) (bookings s))
          then Inl ''E11000 duplicate key error''
          else Inr (b, s\<lparr>bookings := bookings s @ [b], nextId := Suc (nextId s)\<rparr>))"

section \<open>Booking controller\<close>

text \<open>The body of a booking request. \<^verbatim>\<open>createBooking\<close> destructures \<^verbatim>\<open>eventId\<close>,
  \<^verbatim>\<open>specialRequests\<close> and \<^verbatim>\<open>notes\<close>; a \<^verbatim>\<open>quantity\<close> sent along is never read.\<close>

record booking_req =
  r_eventId :: oid
  r_quantity :: "int option"
  r_specialRequests :: "string option"
  r_notes :: "string option"

definition createBooking :: "runtime \<Rightarrow> actor \<Rightarrow> booking_req \<Rightarrow> db \<Rightarrow> response \<times> db" where
  "createBooking rt req_user body s =
     (case Event_findById s (r_eventId body) of
        None \<Rightarrow> (ErrorResponse ''Event not found'' 404, s)
      | Some event \<Rightarrow>
          if e_status event \<noteq> Open then (ErrorResponse ''Event is not open for booking'' 400, s)
          else if currentParticipants event \<ge> maxParticipants event
               then (ErrorResponse ''Event is full'' 400, s)
          else (case find (\<lambda>b. userId b = a_id req_user \<and> eventId b = r_eventId body) (bookings s) of
                  Some existingBooking \<Rightarrow>
                    (ErrorResponse ''You already have a booking for this event'' 400, s)
                | None \<Rightarrow>
                    (case Booking_create
                            \<lparr>d_userId = Some (a_id req_user), d_eventId = Some (r_eventId body),
                             d_hostId = Some (e_hostId event), d_status = Some (if price event > 0 then Pending else Confirmed),
                             d_paymentStatus = Some (if price event > 0 then PayPending else Paid),
                             d_paymentIntentId = None, d_amount = Some (price event),
                             d_quantity = None, d_currency = None,
                             d_specialRequests = r_specialRequests body, d_notes = r_notes body\<rparr> s of
                       Inl err \<Rightarrow> (ErrorResponse err 500, s)
                     | Inr (booking, s1) \<Rightarrow>
                         if price event = 0 then
                           (case Event_save rt (event\<lparr>participants := participants event @ [a_id req_user],
                                                   currentParticipants := currentParticipants event + 1\<rparr>) s1 of
                              Inl err \<Rightarrow> (ErrorResponse err 500, s1)
                            | Inr s2 \<Rightarrow>
                                (SuccessResponse (Some booking) ''Booking created successfully'' (Some 201),
                                 User_update (a_id req_user)
                                   (\<lambda>u. u\<lparr>joinedEvents := joinedEvents u @ [r_eventId body]\<rparr>) s2))
                         else (SuccessResponse (Some booking) ''Booking created successfully'' (Some 201), s1))))"

text \<open>\<^verbatim>\<open>PUT /:id\<close>: the body of an update request, each value a string or absent.\<close>

record update_req =
  q_status :: "string option"
  q_specialRequests :: "string option"
  q_notes :: "string option"

text \<open>The \<^verbatim>\<open>enum\<close> of the \<^verbatim>\<open>status\<close> path.\<close>

definition status_of_string :: "string \<Rightarrow> booking_status option" where
  "status_of_string t =
     (if t = ''pending'' then Some Pending
      else if t = ''confirmed'' then Some Confirmed
      else if t = ''cancelled'' then Some Cancelled
      else if t = ''completed'' then Some Completed
      else if t = ''refunded'' then Some Refunded
      else if t = ''disputed'' then Some Disputed
      else None)"

text \<open>JavaScript truthiness of an optional string: absent and the empty string are falsy.\<close>

definition truthy :: "string option \<Rightarrow> bool" where
  "truthy v = (case v of None \<Rightarrow> False | Some t \<Rightarrow> t \<noteq> [])"

text \<open>\<^verbatim>\<open>findByIdAndUpdate(id, { status, specialRequests, notes }, { runValidators: true })\<close>:
  an absent key is dropped from the update; a present one is validated (\<^verbatim>\<open>enum\<close>,
  \<^verbatim>\<open>maxlength\<close>) and set. \<open>None\<close> when a validator rejects.\<close>

definition update_of :: "update_req \<Rightarrow> (booking \<Rightarrow> booking) option" where
  "update_of body =
     (if (case q_status body of None \<Rightarrow> False | Some t \<Rightarrow> status_of_string t = None)
         \<or> \<not> maxlength 500 (q_specialRequests body) \<or> \<not> maxlength 1000 (q_notes body)
      then None
      else Some (\<lambda>b.
        let b1 = (case q_status body of None \<Rightarrow> b
                  | Some t \<Rightarrow> (case status_of_string t of None \<Rightarrow> b | Some st \<Rightarrow> b\<lparr>status := st\<rparr>));
            b2 = (case q_specialRequests body of None \<Rightarrow> b1 | Some t \<Rightarrow> b1\<lparr>specialRequests := Some t\<rparr>)
        in (case q_notes body of None \<Rightarrow> b2 | Some t \<Rightarrow> b2\<lparr>b_notes := Some t\<rparr>)))"

definition updateBooking :: "actor \<Rightarrow> oid \<Rightarrow> update_req \<Rightarrow> db \<Rightarrow> response \<times> db" where
  "updateBooking req_user i body s =
     (case Booking_findById s i of
        None \<Rightarrow> (ErrorResponse ''Booking not found'' 404, s)
      | Some booking \<Rightarrow>
          if userId booking \<noteq> a_id req_user \<and> hostId booking \<noteq> a_id req_user
             \<and> a_role req_user \<noteq> ADMIN
          then (ErrorResponse ''Access denied'' 403, s)
          else if truthy (q_status body) \<and> hostId booking \<noteq> a_id req_user
                  \<and> a_role req_user \<noteq> ADMIN
          then (ErrorResponse ''Only hosts can change booking status'' 403, s)
          else (case update_of body of
                  None \<Rightarrow> (ErrorResponse ''Validation failed'' 500, s)
                | Some f \<Rightarrow>
                    (SuccessResponse (Some (f booking)) ''Booking updated successfully'' None,
                     Booking_update i f s)))"

text \<open>The block of \<^verbatim>\<open>cancelBooking\<close> under \<^verbatim>\<open>if (booking.status === 'confirmed')\<close>:
  the user leaves the event's participants and the event leaves the user's joined events.
  \<open>Inl\<close> is the error \<^verbatim>\<open>event.save()\<close> throws.\<close>

definition cancelBooking_release :: "runtime \<Rightarrow> booking \<Rightarrow> db \<Rightarrow> string + db" where
  "cancelBooking_release rt booking s =
     (if status booking = Confirmed then
        (case (case Event_findById s (eventId booking) of
                 None \<Rightarrow> Inr s
               | Some event \<Rightarrow>
                   Event_save rt
                     (event\<lparr>participants := filter (\<lambda>u. u \<noteq> userId booking) (participants event),
                            currentParticipants := currentParticipants event - 1,
                            e_status := (if e_status event = Full then Open else e_status event)\<rparr>) s) of
           Inl err \<Rightarrow> Inl err
         | Inr s1 \<Rightarrow>
             Inr (case User_findById s1 (userId booking) of
                    None \<Rightarrow> s1
                  | Some u \<Rightarrow>
                      User_update (userId booking)
                        (\<lambda>u. u\<lparr>joinedEvents := filter (\<lambda>e. e \<noteq> eventId booking) (joinedEvents u)\<rparr>) s1))
      else Inr s)"

definition cancelBooking :: "runtime \<Rightarrow> actor \<Rightarrow> oid \<Rightarrow> db \<Rightarrow> response \<times> db" where
  "cancelBooking rt req_user i s =
     (case Booking_findById s i of
        None \<Rightarrow> (ErrorResponse ''Booking not found'' 404, s)
      | Some booking \<Rightarrow>
          if userId booking \<noteq> a_id req_user \<and> hostId booking \<noteq> a_id req_user
             \<and> a_role req_user \<noteq> ADMIN
          then (ErrorResponse ''Access denied'' 403, s)
          else
            (case cancelBooking_release rt booking s of
               Inl err \<Rightarrow> (ErrorResponse err 500, s)
             | Inr s2 \<Rightarrow>
                 (case Booking_save booking (\<lambda>b. b\<lparr>status := Cancelled\<rparr>) s2 of
                    Inl err \<Rightarrow> (ErrorResponse err 500, s2)
                  | Inr s3 \<Rightarrow>
                      (SuccessResponse (Some (booking\<lparr>status := Cancelled\<rparr>))
                         ''Booking cancelled successfully'' None, s3))))"

definition confirmBooking :: "runtime \<Rightarrow> actor \<Rightarrow> oid \<Rightarrow> db \<Rightarrow> response \<times> db" where
  "confirmBooking rt req_user i s =
     (case Booking_findById s i of
        None \<Rightarrow> (ErrorResponse ''Booking not found'' 404, s)
      | Some booking \<Rightarrow>
          if hostId booking \<noteq> a_id req_user \<and> a_role req_user \<noteq> ADMIN
          then (ErrorResponse ''Access denied. Only hosts can confirm bookings'' 403, s)
          else if status booking \<noteq> Pending
          then (ErrorResponse ''Booking cannot be confirmed'' 400, s)
          else if paymentStatus booking \<noteq> Paid
          then (ErrorResponse ''Payment must be completed before confirming booking'' 400, s)
          else
            (case Booking_save booking (\<lambda>b. b\<lparr>status := Confirmed\<rparr>) s of
               Inl err \<Rightarrow> (ErrorResponse err 500, s)
             | Inr s1 \<Rightarrow>
                 (let ok = SuccessResponse (Some (booking\<lparr>status := Confirmed\<rparr>))
                             ''Booking confirmed successfully'' None
                  in case Event_findById s1 (eventId booking) of
                       None \<Rightarrow> (ok, s1)
                     | Some event \<Rightarrow>
                         (case (if userId booking \<notin> set (participants event)
                                then Event_save rt
                                       (event\<lparr>participants := participants event @ [userId booking],
                                              currentParticipants := currentParticipants event + 1\<rparr>) s1
                                else Inr s1) of
                            Inl err \<Rightarrow> (ErrorResponse err 500, s1)
                          | Inr s2 \<Rightarrow>
                              (ok,
                               case User_findById s2 (userId booking) of
                                 None \<Rightarrow> s2
                               | Some u \<Rightarrow>
                                   if e_id event \<notin> set (joinedEvents u)
                                   then User_update (userId booking)
                                          (\<lambda>u. u\<lparr>joinedEvents := joinedEvents u @ [e_id event]\<rparr>) s2
                                   else s2)))))"

definition confirmBookingPost :: "runtime \<Rightarrow> actor \<Rightarrow> oid option \<Rightarrow> db \<Rightarrow> response \<times> db" where
  "confirmBookingPost rt req_user bookingId s =
     (case bookingId of
        None \<Rightarrow> (ErrorResponse ''Booking ID is required'' 400, s)
      | Some i \<Rightarrow> confirmBooking rt req_user i s)"

section \<open>Payment service\<close>

record intent_req =
  i_eventId :: oid
  i_userId :: oid
  i_quantity :: int

record intent_response =
  clientSecret :: string
  r_paymentIntentId :: string
  r_amount :: int
  r_currency :: string

definition gw_log :: "gw_call \<Rightarrow> db \<Rightarrow> db" where
  "gw_log c s = s\<lparr>gwCalls := gwCalls s @ [c]\<rparr>"

text \<open>\<^verbatim>\<open>PaymentService.createPaymentIntent\<close>. \<open>config_currency\<close> is
  \<^verbatim>\<open>config.stripe.currency\<close>, \<open>now\<close> is \<^verbatim>\<open>new Date()\<close>; the amount is
  \<^verbatim>\<open>Math.round(event.price * quantity * 100)\<close>.\<close>

definition createPaymentIntent ::
  "runtime \<Rightarrow> gateway \<Rightarrow> string \<Rightarrow> nat \<Rightarrow> intent_req \<Rightarrow> db \<Rightarrow> (string + intent_response) \<times> db" where
  "createPaymentIntent rt stripe config_currency now data s =
     (case Event_findById s (i_eventId data) of
        None \<Rightarrow> (Inl ''Event not found'', s)
      | Some event \<Rightarrow>
          if e_status event \<noteq> Open then (Inl ''Event is not available for booking'', s)
          else if date event < now then (Inl ''Cannot book past events'', s)
          else
            (let currentBookingsCount =
                   int (length (filter (\<lambda>b. eventId b = i_eventId data \<and> status b \<noteq> Cancelled) (bookings s)))
             in if currentBookingsCount + i_quantity data > maxParticipants event
                then (Inl ''Not enough spots available'', s)
                else
                  (let amt = js_cents rt (js_times rt (price event) (i_quantity data));
                       s1 = gw_log (GwCreate amt) s
                   in case paymentIntents_create stripe amt config_currency
                             (i_eventId data) (i_userId data) (i_quantity data) of
                        None \<Rightarrow> (Inl ''Stripe error'', s1)
                      | Some (pid, secret) \<Rightarrow>
                          (Inr \<lparr>clientSecret = secret, r_paymentIntentId = pid,
                                r_amount = amt, r_currency = config_currency\<rparr>, s1))))"

text \<open>The booking document both confirmation paths build from a succeeded intent.\<close>

definition paid_booking_doc :: "runtime \<Rightarrow> string \<Rightarrow> intent \<Rightarrow> booking_doc" where
  "paid_booking_doc rt intentId paymentIntent =
     \<lparr>d_userId = md_userId paymentIntent, d_eventId = md_eventId paymentIntent,
      d_hostId = None, d_status = Some Confirmed, d_paymentStatus = Some Paid,
      d_paymentIntentId = Some intentId,
      d_amount = Some (of_int (pi_amount paymentIntent) / 100),
      d_quantity = (case md_quantity paymentIntent of None \<Rightarrow> None | Some t \<Rightarrow> js_parseInt rt t),
      d_currency = Some (pi_currency paymentIntent),
      d_specialRequests = None, d_notes = None\<rparr>"

text \<open>The body of the \<^verbatim>\<open>try\<close> block of \<^verbatim>\<open>PaymentService.confirmPayment\<close>.\<close>

definition confirmPayment_try :: "runtime \<Rightarrow> gateway \<Rightarrow> string \<Rightarrow> db \<Rightarrow> (string + unit) \<times> db" where
  "confirmPayment_try rt stripe intentId s =
     (let s0 = gw_log (GwRetrieve (Some intentId)) s in
      case paymentIntents_retrieve stripe (Some intentId) of
        None \<Rightarrow> (Inl ''Stripe error'', s0)
      | Some paymentIntent \<Rightarrow>
          if pi_status paymentIntent \<noteq> ''succeeded'' then (Inl ''Payment not successful'', s0)
          else if md_eventId paymentIntent = None \<or> md_userId paymentIntent = None
                  \<or> \<not> truthy (md_quantity paymentIntent)
          then (Inl ''Invalid payment metadata'', s0)
          else (case find (\<lambda>b. paymentIntentId b = Some intentId \<and> status b \<noteq> Cancelled) (bookings s0) of
                  Some existingBooking \<Rightarrow> (Inl ''Booking already exists for this payment'', s0)
                | None \<Rightarrow>
                    (case Booking_create (paid_booking_doc rt intentId paymentIntent) s0 of
                       Inl err \<Rightarrow> (Inl err, s0)
                     | Inr (booking, s1) \<Rightarrow>
                         (Inr (), Event_inc (eventId booking) (quantity booking) s1))))"

text \<open>\<^verbatim>\<open>PaymentService.confirmPayment\<close>: whatever the \<^verbatim>\<open>try\<close> block throws is logged and
  replaced by one error.\<close>

definition confirmPayment :: "runtime \<Rightarrow> gateway \<Rightarrow> string \<Rightarrow> db \<Rightarrow> (string + unit) \<times> db" where
  "confirmPayment rt stripe intentId s =
     (case confirmPayment_try rt stripe intentId s of
        (Inl error, s') \<Rightarrow> (Inl ''Failed to confirm payment'', s')
      | (Inr u, s') \<Rightarrow> (Inr u, s'))"

text \<open>\<^verbatim>\<open>PaymentService.handlePaymentSucceeded\<close> (webhook \<^verbatim>\<open>payment_intent.succeeded\<close>):
  invalid metadata is logged and dropped; a rejected \<^verbatim>\<open>save\<close> is not caught here.\<close>

definition handlePaymentSucceeded :: "runtime \<Rightarrow> intent \<Rightarrow> db \<Rightarrow> (string + unit) \<times> db" where
  "handlePaymentSucceeded rt paymentIntent s =
     (if md_eventId paymentIntent = None \<or> md_userId paymentIntent = None
         \<or> \<not> truthy (md_quantity paymentIntent)
      then (Inr (), s)
      else (case find (\<lambda>b. paymentIntentId b = Some (pi_id paymentIntent) \<and> status b \<noteq> Cancelled) (bookings s) of
              Some existingBooking \<Rightarrow> (Inr (), s)
            | None \<Rightarrow>
                (case Booking_create (paid_booking_doc rt (pi_id paymentIntent) paymentIntent) s of
                   Inl err \<Rightarrow> (Inl err, s)
                 | Inr (booking, s1) \<Rightarrow>
                     (Inr (), Event_inc (eventId booking) (quantity booking) s1))))"

text \<open>\<^verbatim>\<open>PaymentService.handleDisputeCreated\<close> (webhook \<^verbatim>\<open>charge.dispute.created\<close>);
  the argument is \<^verbatim>\<open>dispute.payment_intent\<close>. A rejected \<^verbatim>\<open>save\<close> is not caught here.\<close>

definition handleDisputeCreated :: "string option \<Rightarrow> db \<Rightarrow> (string + unit) \<times> db" where
  "handleDisputeCreated payment_intent s =
     (case find (\<lambda>b. paymentIntentId b = payment_intent) (bookings s) of
        None \<Rightarrow> (Inr (), s)
      | Some booking \<Rightarrow>
          (case Booking_save booking (\<lambda>b. b\<lparr>status := Disputed\<rparr>) s of
             Inl err \<Rightarrow> (Inl err, s)
           | Inr s1 \<Rightarrow> (Inr (), s1)))"

datatype stripe_event =
  PaymentIntentSucceeded intent
  | PaymentIntentFailed intent
  | ChargeDisputeCreated "string option"
  | OtherEvent string

definition handleWebhook :: "runtime \<Rightarrow> stripe_event \<Rightarrow> db \<Rightarrow> (string + unit) \<times> db" where
  "handleWebhook rt ev s =
     (case ev of
        PaymentIntentSucceeded paymentIntent \<Rightarrow> handlePaymentSucceeded rt paymentIntent s
      | PaymentIntentFailed paymentIntent \<Rightarrow> (Inr (), s)
      | ChargeDisputeCreated payment_intent \<Rightarrow> handleDisputeCreated payment_intent s
      | OtherEvent t \<Rightarrow> (Inr (), s))"

record refund_data =
  f_bookingId :: oid
  f_reason :: "string option"
  f_amount :: "rat option"

text \<open>\<^verbatim>\<open>amount ? Math.round(amount * 100) : paymentIntent.amount\<close>: an absent amount and
  the amount 0 are falsy.\<close>

definition refund_cents :: "runtime \<Rightarrow> rat option \<Rightarrow> intent \<Rightarrow> int" where
  "refund_cents rt amt paymentIntent =
     (case amt of
        None \<Rightarrow> pi_amount paymentIntent
      | Some a \<Rightarrow> if a = 0 then pi_amount paymentIntent else js_cents rt a)"

text \<open>The body of the \<^verbatim>\<open>try\<close> block of \<^verbatim>\<open>PaymentService.processRefund\<close>.\<close>

definition processRefund_try ::
  "runtime \<Rightarrow> gateway \<Rightarrow> refund_data \<Rightarrow> booking \<Rightarrow> db \<Rightarrow> (string + unit) \<times> db" where
  "processRefund_try rt stripe data booking s =
     (let s0 = gw_log (GwRetrieve (paymentIntentId booking)) s in
      case paymentIntents_retrieve stripe (paymentIntentId booking) of
        None \<Rightarrow> (Inl ''Stripe error'', s0)
      | Some paymentIntent \<Rightarrow>
          (let refundAmount' = refund_cents rt (f_amount data) paymentIntent;
               s1 = gw_log (GwRefund (paymentIntentId booking) refundAmount') s0
           in case refunds_create stripe (paymentIntentId booking) refundAmount' of
                None \<Rightarrow> (Inl ''Stripe error'', s1)
              | Some refund_id \<Rightarrow>
                  (case Booking_save booking
                          (\<lambda>b. b\<lparr>status := Cancelled, paymentStatus := PayRefunded,
                                 refundId := Some refund_id,
                                 refundAmount := Some (of_int refundAmount' / 100),
                                 refundReason := f_reason data\<rparr>) s1 of
                     Inl err \<Rightarrow> (Inl err, s1)
                   | Inr s2 \<Rightarrow>
                       (Inr (), Event_inc (eventId booking) (- quantity booking) s2))))"

definition processRefund :: "runtime \<Rightarrow> gateway \<Rightarrow> refund_data \<Rightarrow> db \<Rightarrow> (string + unit) \<times> db" where
  "processRefund rt stripe data s =
     (case Booking_findById s (f_bookingId data) of
        None \<Rightarrow> (Inl ''Booking not found'', s)
      | Some booking \<Rightarrow>
          if status booking = Cancelled then (Inl ''Booking already cancelled'', s)
          else if paymentStatus booking \<noteq> Paid then (Inl ''No payment to refund'', s)
          else (case processRefund_try rt stripe data booking s of
                  (Inl error, s') \<Rightarrow> (Inl ''Failed to process refund'', s')
                | (Inr u, s') \<Rightarrow> (Inr u, s')))"

section \<open>Operations as a transition system\<close>

datatype op =
  CreateBooking actor booking_req
  | CreatePaymentIntent gateway string nat intent_req
  | ConfirmPayment gateway string
  | Webhook stripe_event
  | ConfirmBooking actor oid
  | CancelBooking actor oid
  | UpdateBooking actor oid update_req
  | ProcessRefund gateway refund_data

fun step :: "runtime \<Rightarrow> op \<Rightarrow> db \<Rightarrow> db" where
  "step rt (CreateBooking u body) s = snd (createBooking rt u body s)"
| "step rt (CreatePaymentIntent g c now data) s = snd (createPaymentIntent rt g c now data s)"
| "step rt (ConfirmPayment g i) s = snd (confirmPayment rt g i s)"
| "step rt (Webhook ev) s = snd (handleWebhook rt ev s)"
| "step rt (ConfirmBooking u i) s = snd (confirmBooking rt u i s)"
| "step rt (CancelBooking u i) s = snd (cancelBooking rt u i s)"
| "step rt (UpdateBooking u i body) s = snd (updateBooking u i body s)"
| "step rt (ProcessRefund g data) s = snd (processRefund rt g data s)"

fun run :: "runtime \<Rightarrow> op list \<Rightarrow> db \<Rightarrow> db" where
  "run rt [] s = s"
| "run rt (x # xs) s = run rt xs (step rt x s)"

section \<open>Properties\<close>

text \<open>The number of bookings of an event that are confirmed or completed, and the
  statement that every event's counter equals it.\<close>

definition counted :: "oid \<Rightarrow> db \<Rightarrow> nat" where
  "counted e s =
     length (filter (\<lambda>b. eventId b = e \<and> (status b = Confirmed \<or> status b = Completed)) (bookings s))"

definition participants_consistent :: "db \<Rightarrow> bool" where
  "participants_consistent s =
     list_all (\<lambda>e. currentParticipants e = int (counted (e_id e) s)) (events s)"

text \<open>The key of the unique index on bookings, and the constraint the index enforces.\<close>

definition pairs :: "db \<Rightarrow> (oid \<times> oid) list" where
  "pairs s = map (\<lambda>b. (userId b, eventId b)) (bookings s)"

definition unique_index :: "db \<Rightarrow> bool" where
  "unique_index s = distinct (pairs s)"

definition active_bookings :: "oid \<Rightarrow> oid \<Rightarrow> db \<Rightarrow> booking list" where
  "active_bookings u e s =
     filter (\<lambda>b. userId b = u \<and> eventId b = e \<and> status b \<noteq> Cancelled) (bookings s)"

text \<open>The gateway fails during a refund of booking \<open>b\<close>: retrieving the intent throws,
  or creating the refund does.\<close>

definition gateway_fails :: "runtime \<Rightarrow> gateway \<Rightarrow> refund_data \<Rightarrow> booking \<Rightarrow> bool" where
  "gateway_fails rt stripe data b =
     (case paymentIntents_retrieve stripe (paymentIntentId b) of
        None \<Rightarrow> True
      | Some p \<Rightarrow> refunds_create stripe (paymentIntentId b) (refund_cents rt (f_amount data) p) = None)"

text \<open>A gateway that refuses a refund above the amount of the intent.\<close>

definition caps_refunds :: "gateway \<Rightarrow> bool" where
  "caps_refunds stripe =
     (\<forall>i c p r. paymentIntents_retrieve stripe i = Some p \<and> refunds_create stripe i c = Some r
        \<longrightarrow> c \<le> pi_amount p)"

text \<open>The number of bookings of an event that are not cancelled
  (\<^verbatim>\<open>currentBookingsCount\<close> of \<^verbatim>\<open>createPaymentIntent\<close>).\<close>

definition active_count :: "oid \<Rightarrow> db \<Rightarrow> int" where
  "active_count e s = int (length (filter (\<lambda>b. eventId b = e \<and> status b \<noteq> Cancelled) (bookings s)))"


text \<open>The status changes each operation of the code can make to a stored booking \<open>old\<close>,
  in the state \<open>s\<close> it starts from: which booking, on whose request, from which status
  and payment status, to which status.\<close>

fun transition_of :: "op \<Rightarrow> db \<Rightarrow> booking \<Rightarrow> booking_status \<Rightarrow> bool" where
  "transition_of (ConfirmBooking u i) s old new =
     (new = status old
      \<or> b_id old = i \<and> (hostId old = a_id u \<or> a_role u = ADMIN)
        \<and> status old = Pending \<and> paymentStatus old = Paid \<and> new = Confirmed)"
| "transition_of (CancelBooking u i) s old new =
     (new = status old
      \<or> b_id old = i \<and> (userId old = a_id u \<or> hostId old = a_id u \<or> a_role u = ADMIN)
        \<and> new = Cancelled)"
| "transition_of (ProcessRefund g data) s old new =
     (new = status old
      \<or> b_id old = f_bookingId data \<and> status old \<noteq> Cancelled \<and> paymentStatus old = Paid
        \<and> new = Cancelled)"
| "transition_of (Webhook (ChargeDisputeCreated i)) s old new =
     (new = status old
      \<or> (case find (\<lambda>b. paymentIntentId b = i) (bookings s) of
            None \<Rightarrow> False
          | Some b \<Rightarrow> b_id old = b_id b)
        \<and> new = Disputed)"
| "transition_of (UpdateBooking u i body) s old new =
     (new = status old
      \<or> b_id old = i \<and> (hostId old = a_id u \<or> a_role u = ADMIN)
        \<and> (case q_status body of None \<Rightarrow> False | Some t \<Rightarrow> status_of_string t = Some new))"
| "transition_of other s old new = (new = status old)"

text \<open>Between two states no booking disappears or changes its \<^verbatim>\<open>_id\<close>, and every stored
  booking's status moves by \<open>R\<close>.\<close>

definition status_step :: "(booking \<Rightarrow> booking_status \<Rightarrow> bool) \<Rightarrow> db \<Rightarrow> db \<Rightarrow> bool" where
  "status_step R s s' =
     (length (bookings s) \<le> length (bookings s')
      \<and> (\<forall>i < length (bookings s).
            b_id (bookings s' ! i) = b_id (bookings s ! i)
            \<and> R (bookings s ! i) (status (bookings s' ! i))))"

section \<open>Sample data\<close>

definition mk_event :: "int \<Rightarrow> int \<Rightarrow> rat \<Rightarrow> event_status \<Rightarrow> event" where
  "mk_event cap cur p st =
     \<lparr>e_id = 1, e_hostId = 9, date = 100, maxParticipants = cap, currentParticipants = cur,
      price = p, e_status = st, participants = [7]\<rparr>"

definition mk_booking :: "booking_status \<Rightarrow> payment_status \<Rightarrow> int \<Rightarrow> booking" where
  "mk_booking st pst q =
     \<lparr>b_id = 20, userId = 7, eventId = 1, hostId = 9, status = st, paymentStatus = pst,
      paymentIntentId = Some ''pi_1'', amount = 10 * of_int q, quantity = q, currency = ''usd'',
      refundId = None, refundAmount = None, refundReason = None,
      specialRequests = None, b_notes = None\<rparr>"

definition mk_db :: "event \<Rightarrow> booking list \<Rightarrow> db" where
  "mk_db e bs = \<lparr>events = [e], bookings = bs, users = [\<lparr>u_id = 7, joinedEvents = [1]\<rparr>],
                 nextId = 21, gwCalls = []\<rparr>"

definition demo_intent :: intent where
  "demo_intent = \<lparr>pi_id = ''pi_1'', pi_status = ''succeeded'', pi_amount = 2000,
      pi_currency = ''usd'', md_eventId = Some 1, md_userId = Some 7, md_quantity = Some ''2''\<rparr>"

text \<open>Three gateways: one that accepts every call, one that refuses a refund above the
  intent's amount, one whose every call throws.\<close>

definition demo_stripe :: gateway where
  "demo_stripe = \<lparr>paymentIntents_create = (\<lambda>a c e u q. Some (''pi_2'', ''secret'')),
      paymentIntents_retrieve = (\<lambda>i. Some demo_intent),
      refunds_create = (\<lambda>i a. Some ''re_1'')\<rparr>"

definition strict_stripe :: gateway where
  "strict_stripe = \<lparr>paymentIntents_create = (\<lambda>a c e u q. Some (''pi_2'', ''secret'')),
      paymentIntents_retrieve = (\<lambda>i. Some demo_intent),
      refunds_create = (\<lambda>i a. if a \<le> 2000 then Some ''re_1'' else None)\<rparr>"

definition stripe_down :: gateway where
  "stripe_down = \<lparr>paymentIntents_create = (\<lambda>a c e u q. None),
      paymentIntents_retrieve = (\<lambda>i. None),
      refunds_create = (\<lambda>i a. None)\<rparr>"

text \<open>A runtime for the sample data. Its arithmetic is exact, which is what double
  arithmetic gives on the whole amounts of the sample data. Its \<open>decimal\<close> is \<^verbatim>\<open>parseInt\<close>
  on a non-empty string of decimal digits that denotes a number below \<open>2 ^ 53\<close>; on every
  other string it answers \<open>None\<close>, and the sample data has no other string. The event
  schema was defined at date 50, before the date of the sample events.\<close>

definition decimal :: "string \<Rightarrow> int option" where
  "decimal t =
     (if t \<noteq> [] \<and> list_all (\<lambda>c. 48 \<le> (of_char c :: nat) \<and> (of_char c :: nat) \<le> 57) t
      then Some (int (foldl (\<lambda>a c. a * 10 + (of_char c - 48)) 0 t))
      else None)"

definition sample_rt :: runtime where
  "sample_rt = \<lparr>started = 50, js_times = (\<lambda>p q. p * of_int q),
      js_cents = (\<lambda>x. \<lfloor>x * 100 + 1 / 2\<rfloor>), js_parseInt = decimal\<rparr>"

definition refund_of :: "rat option \<Rightarrow> refund_data" where
  "refund_of a = \<lparr>f_bookingId = 20, f_reason = Some ''schedule conflict'', f_amount = a\<rparr>"


section \<open>Frame facts\<close>

lemma bookings_gw_log [simp]: "bookings (gw_log c s) = bookings s"
  and events_gw_log [simp]: "events (gw_log c s) = events s"
  and users_gw_log [simp]: "users (gw_log c s) = users s"
  by (simp_all add: gw_log_def)

lemma bookings_Event_inc [simp]: "bookings (Event_inc i n s) = bookings s"
  by (simp add: Event_inc_def)

lemma bookings_User_update [simp]: "bookings (User_update i f s) = bookings s"
  by (simp add: User_update_def)

lemma bookings_Event_save: "Event_save rt e s = Inr s' \<Longrightarrow> bookings s' = bookings s"
  by (auto simp: Event_save_def split: if_splits)

lemma Booking_save_Inr:
  "Booking_save b f s = Inr s' \<Longrightarrow> s' = Booking_update (b_id b) f s \<and> booking_valid (f b)"
  by (auto simp: Booking_save_def split: if_splits)

lemma js_cents_sample [simp]: "js_cents sample_rt (of_int n) = n * 100"
proof -
  have "\<lfloor>(of_int (n * 100) :: rat) + 1 / 2\<rfloor> = n * 100"
    by (rule floor_unique) simp_all
  then show ?thesis by (simp add: sample_rt_def)
qed

lemma js_times_sample [simp]: "js_times sample_rt p q = p * of_int q"
  by (simp add: sample_rt_def)

lemma js_cents_sample_numeral [simp]: "js_cents sample_rt (numeral k) = numeral k * 100"
  using js_cents_sample [of "numeral k"] by simp

section \<open>A failing gateway during a refund\<close>

text \<open>
  Claim C10. When \<^verbatim>\<open>processRefund\<close> reaches the gateway (the booking exists, is not
  cancelled and is paid) and the gateway call fails, retrieving the intent or creating
  the refund, the caller gets the error \<^verbatim>\<open>Failed to process refund\<close> and the bookings,
  the events and the users are what they were: status, paymentStatus, the refund fields
  and currentParticipants keep their values.
\<close>

theorem processRefund_gateway_failure:
  assumes "Booking_findById s (f_bookingId data) = Some b"
    and "status b \<noteq> Cancelled" and "paymentStatus b = Paid"
    and "gateway_fails rt stripe data b"
  shows "fst (processRefund rt stripe data s) = Inl ''Failed to process refund''
       \<and> bookings (snd (processRefund rt stripe data s)) = bookings s
       \<and> events (snd (processRefund rt stripe data s)) = events s
       \<and> users (snd (processRefund rt stripe data s)) = users s"
  using assms
  by (auto simp: processRefund_def processRefund_try_def gateway_fails_def Let_def
      split: option.splits)

theorem processRefund_gateway_failure_witness:
  "fst (processRefund sample_rt stripe_down (refund_of None) (mk_db (mk_event 5 1 10 Open) [mk_booking Confirmed Paid 1]))
     = Inl ''Failed to process refund''
   \<and> bookings (snd (processRefund sample_rt stripe_down (refund_of None) (mk_db (mk_event 5 1 10 Open) [mk_booking Confirmed Paid 1])))
     = [mk_booking Confirmed Paid 1]
   \<and> events (snd (processRefund sample_rt stripe_down (refund_of None) (mk_db (mk_event 5 1 10 Open) [mk_booking Confirmed Paid 1])))
     = [mk_event 5 1 10 Open]
   \<and> fst (processRefund sample_rt strict_stripe (refund_of (Some 50)) (mk_db (mk_event 5 1 10 Open) [mk_booking Confirmed Paid 1]))
     = Inl ''Failed to process refund''
   \<and> bookings (snd (processRefund sample_rt strict_stripe (refund_of (Some 50)) (mk_db (mk_event 5 1 10 Open) [mk_booking Confirmed Paid 1])))
     = [mk_booking Confirmed Paid 1]
   \<and> events (snd (processRefund sample_rt strict_stripe (refund_of (Some 50)) (mk_db (mk_event 5 1 10 Open) [mk_booking Confirmed Paid 1])))
     = [mk_event 5 1 10 Open]"
proof -
  let ?s = "mk_db (mk_event 5 1 10 Open) [mk_booking Confirmed Paid 1]"
  let ?b = "mk_booking Confirmed Paid 1"
  have found: "Booking_findById ?s (f_bookingId (refund_of None)) = Some ?b"
    by (simp add: Booking_findById_def mk_db_def mk_booking_def refund_of_def)
  have st: "status ?b \<noteq> Cancelled" and paid: "paymentStatus ?b = Paid"
    by (simp_all add: mk_booking_def)
  have fails: "gateway_fails sample_rt stripe_down (refund_of None) ?b"
    by (simp add: gateway_fails_def stripe_down_def)
  have found': "Booking_findById ?s (f_bookingId (refund_of (Some 50))) = Some ?b"
    by (simp add: Booking_findById_def mk_db_def mk_booking_def refund_of_def)
  have fails': "gateway_fails sample_rt strict_stripe (refund_of (Some 50)) ?b"
    by (simp add: gateway_fails_def strict_stripe_def refund_cents_def refund_of_def)
  show ?thesis
    using processRefund_gateway_failure [OF found st paid fails]
      processRefund_gateway_failure [OF found' st paid fails']
    by (simp add: mk_db_def)
qed

section \<open>One booking per user and event\<close>

lemma map_update_first: "(\<And>x. g (f x) = g x) \<Longrightarrow> map g (update_first P f xs) = map g xs"
  by (induction xs) auto

lemma distinct_key_filter:
  "distinct (map g xs) \<Longrightarrow> length (filter (\<lambda>x. g x = k \<and> Q x) xs) \<le> 1"
proof (induction xs)
  case Nil
  then show ?case by simp
next
  case (Cons x xs)
  have "g x \<notin> g ` set xs"
    using Cons.prems by simp
  then have "\<forall>y\<in>set xs. g y \<noteq> g x"
    by (metis image_eqI)
  then have "filter (\<lambda>y. g y = g x \<and> Q y) xs = []"
    by (simp add: filter_empty_conv)
  with Cons show ?case by auto
qed

lemma pairs_gw_log [simp]: "pairs (gw_log c s) = pairs s"
  and pairs_Event_inc [simp]: "pairs (Event_inc i n s) = pairs s"
  and pairs_User_update [simp]: "pairs (User_update j f s) = pairs s"
  by (simp_all add: pairs_def)

lemma pairs_Event_save: "Event_save rt e s = Inr s' \<Longrightarrow> pairs s' = pairs s"
  by (simp add: pairs_def bookings_Event_save)

lemma pairs_Booking_update:
  "(\<And>b. userId (f b) = userId b \<and> eventId (f b) = eventId b) \<Longrightarrow> pairs (Booking_update i f s) = pairs s"
  by (simp add: pairs_def Booking_update_def map_update_first)

lemma unique_gw_log [simp]: "unique_index (gw_log c s) = unique_index s"
  and unique_Event_inc [simp]: "unique_index (Event_inc i n s) = unique_index s"
  and unique_User_update [simp]: "unique_index (User_update j f s) = unique_index s"
  by (simp_all add: unique_index_def)

lemma unique_Booking_update:
  "(\<And>b. userId (f b) = userId b \<and> eventId (f b) = eventId b) \<Longrightarrow>
   unique_index (Booking_update i f s) = unique_index s"
  by (simp add: unique_index_def pairs_Booking_update)

lemma unique_Event_save: "Event_save rt e s = Inr s' \<Longrightarrow> unique_index s \<Longrightarrow> unique_index s'"
  by (simp add: unique_index_def pairs_Event_save)

lemma unique_Event_save_eq: "Event_save rt e s = Inr s' \<Longrightarrow> unique_index s' = unique_index s"
  by (simp add: unique_index_def pairs_Event_save)

lemma unique_Booking_create:
  "Booking_create d s = Inr (b, s') \<Longrightarrow> unique_index s \<Longrightarrow> unique_index s'"
  by (auto simp: Booking_create_def unique_index_def pairs_def split: option.splits if_splits)

lemma update_of_keys:
  "update_of body = Some f \<Longrightarrow> userId (f b) = userId b \<and> eventId (f b) = eventId b"
  by (auto simp: update_of_def Let_def split: if_splits option.splits)

lemma unique_createBooking: "unique_index s \<Longrightarrow> unique_index (snd (createBooking rt u body s))"
  by (auto simp: createBooking_def split: option.split sum.split prod.split
      intro: unique_Booking_create unique_Event_save)

lemma unique_createPaymentIntent:
  "unique_index s \<Longrightarrow> unique_index (snd (createPaymentIntent rt g c now data s))"
  by (simp add: createPaymentIntent_def Let_def split: option.split prod.split)

lemma unique_confirmPayment: "unique_index s \<Longrightarrow> unique_index (snd (confirmPayment rt g i s))"
  by (auto simp: confirmPayment_def confirmPayment_try_def Let_def
      split: option.split sum.split prod.split intro: unique_Booking_create)

lemma unique_Booking_save:
  "Booking_save b f s = Inr s' \<Longrightarrow> (\<And>b. userId (f b) = userId b \<and> eventId (f b) = eventId b) \<Longrightarrow>
   unique_index s \<Longrightarrow> unique_index s'"
  by (auto simp: unique_Booking_update dest!: Booking_save_Inr)

lemma unique_handleWebhook: "unique_index s \<Longrightarrow> unique_index (snd (handleWebhook rt ev s))"
  by (auto simp: handleWebhook_def handlePaymentSucceeded_def handleDisputeCreated_def
      split: option.split sum.split prod.split stripe_event.split
      intro: unique_Booking_create unique_Booking_save)

lemma unique_confirmBooking: "unique_index s \<Longrightarrow> unique_index (snd (confirmBooking rt u i s))"
  by (auto simp: confirmBooking_def Let_def unique_Booking_update
      split: option.split sum.split prod.split
      dest!: Booking_save_Inr unique_Event_save_eq)

lemma bookings_release: "cancelBooking_release rt b s = Inr s' \<Longrightarrow> bookings s' = bookings s"
  by (auto simp: cancelBooking_release_def bookings_Event_save split: if_splits option.splits sum.splits)

lemma unique_release: "cancelBooking_release rt b s = Inr s' \<Longrightarrow> unique_index s \<Longrightarrow> unique_index s'"
  by (simp add: unique_index_def pairs_def bookings_release)

lemma unique_cancelBooking: "unique_index s \<Longrightarrow> unique_index (snd (cancelBooking rt u i s))"
  by (auto simp: cancelBooking_def unique_Booking_update
      split: option.split sum.split prod.split
      dest!: Booking_save_Inr intro: unique_release)

lemma unique_updateBooking: "unique_index s \<Longrightarrow> unique_index (snd (updateBooking u i body s))"
  by (auto simp: updateBooking_def unique_Booking_update update_of_keys
      split: option.split sum.split prod.split)

lemma unique_processRefund: "unique_index s \<Longrightarrow> unique_index (snd (processRefund rt g data s))"
  by (auto simp: processRefund_def processRefund_try_def Let_def unique_Booking_update
      split: option.split sum.split prod.split dest!: Booking_save_Inr)

lemma unique_step: "unique_index s \<Longrightarrow> unique_index (step rt x s)"
  by (cases x)
    (simp_all add: unique_createBooking unique_createPaymentIntent unique_confirmPayment
      unique_handleWebhook unique_confirmBooking unique_cancelBooking unique_updateBooking
      unique_processRefund)

lemma unique_run: "unique_index s \<Longrightarrow> unique_index (run rt xs s)"
  by (induction xs arbitrary: s) (simp_all add: unique_step)

text \<open>
  Claim C2. From any state that satisfies the unique index on \<^verbatim>\<open>(userId, eventId)\<close>
  (the empty collection does), after any sequence of operations (booking creation,
  payment-intent creation, payment confirmation by the client call or by the webhook, the
  dispute webhook, host confirmation, cancellation, update, refund) every pair of a user
  and an event has at most one booking whose status is not cancelled. No insert can add a
  second one: \<^verbatim>\<open>Booking_create\<close> is the only insert and the index rejects the pair.
\<close>

theorem at_most_one_active_booking:
  assumes "unique_index s"
  shows "length (active_bookings u e (run rt xs s)) \<le> 1"
proof -
  have "distinct (map (\<lambda>b. (userId b, eventId b)) (bookings (run rt xs s)))"
    using unique_run [OF assms] by (simp add: unique_index_def pairs_def)
  from distinct_key_filter [OF this, of "(u, e)" "\<lambda>b. status b \<noteq> Cancelled"]
  show ?thesis by (simp add: active_bookings_def)
qed

theorem at_most_one_active_booking_witness:
  "unique_index (mk_db (mk_event 5 1 10 Open) [mk_booking Confirmed Paid 1])
   \<and> length (active_bookings 7 1
        (run sample_rt [CreateBooking \<lparr>a_id = 7, a_role = USER\<rparr>
                \<lparr>r_eventId = 1, r_quantity = Some 1, r_specialRequests = None, r_notes = None\<rparr>,
              ConfirmPayment demo_stripe ''pi_9'',
              Webhook (PaymentIntentSucceeded demo_intent)]
           (mk_db (mk_event 5 1 10 Open) [mk_booking Confirmed Paid 1]))) \<le> 1"
proof -
  have h: "unique_index (mk_db (mk_event 5 1 10 Open) [mk_booking Confirmed Paid 1])"
    by (simp add: unique_index_def pairs_def mk_db_def)
  show ?thesis
    by (rule conjI [OF h at_most_one_active_booking [OF h]])
qed

section \<open>Documents the schema rejects\<close>

text \<open>
  \<^verbatim>\<open>createBooking\<close> hands \<^verbatim>\<open>Booking.create\<close> a document with no \<^verbatim>\<open>quantity\<close>; both
  confirmation paths build one with no \<^verbatim>\<open>hostId\<close>. The schema requires both paths, so
  none of the three ever stores a booking.
\<close>

lemma Booking_create_no_quantity:
  "d_quantity d = None \<Longrightarrow> Booking_create d s = Inl ''Booking validation failed''"
  by (simp add: Booking_create_def Booking_validate_def split: option.split)





text \<open>
  Claim C3 (the code departs from it). A user asks for two places at a free event that is
  open and has room. The claim promises a booking with amount = price * quantity,
  status confirmed and paymentStatus paid; the code answers 500 with a validation error
  and stores nothing, because the document it builds carries amount = price and no
  quantity. The state, the log of gateway calls included, is what it was.
\<close>

theorem createBooking_free_event_rejected:
  "createBooking sample_rt \<lparr>a_id = 8, a_role = USER\<rparr>
     \<lparr>r_eventId = 1, r_quantity = Some 2, r_specialRequests = None, r_notes = None\<rparr>
     (mk_db (mk_event 5 1 0 Open) [])
   = (ErrorResponse ''Booking validation failed'' 500, mk_db (mk_event 5 1 0 Open) [])"
  by (simp add: createBooking_def Event_findById_def mk_db_def mk_event_def Booking_create_def
      Booking_validate_def)

text \<open>
  Claim C7 (the code departs from it). The gateway reports a succeeded intent with
  complete metadata. The claim promises exactly one booking and one increment of
  currentParticipants after two confirmations of the same intent, by the client call or
  by the webhook; the code stores no booking and leaves the event as it was, the first
  call already failing with \<^verbatim>\<open>Failed to confirm payment\<close>.
\<close>

theorem confirmPayment_twice_no_booking:
  "fst (confirmPayment sample_rt demo_stripe ''pi_1'' (mk_db (mk_event 5 0 10 Open) []))
     = Inl ''Failed to confirm payment''
   \<and> bookings (run sample_rt [ConfirmPayment demo_stripe ''pi_1'', ConfirmPayment demo_stripe ''pi_1'']
                     (mk_db (mk_event 5 0 10 Open) [])) = []
   \<and> events (run sample_rt [ConfirmPayment demo_stripe ''pi_1'', ConfirmPayment demo_stripe ''pi_1'']
                   (mk_db (mk_event 5 0 10 Open) [])) = [mk_event 5 0 10 Open]
   \<and> bookings (run sample_rt [Webhook (PaymentIntentSucceeded demo_intent), ConfirmPayment demo_stripe ''pi_1'']
                     (mk_db (mk_event 5 0 10 Open) [])) = []
   \<and> events (run sample_rt [Webhook (PaymentIntentSucceeded demo_intent), ConfirmPayment demo_stripe ''pi_1'']
                   (mk_db (mk_event 5 0 10 Open) [])) = [mk_event 5 0 10 Open]
   \<and> bookings (run sample_rt [ConfirmPayment demo_stripe ''pi_1'', Webhook (PaymentIntentSucceeded demo_intent)]
                     (mk_db (mk_event 5 0 10 Open) [])) = []
   \<and> events (run sample_rt [ConfirmPayment demo_stripe ''pi_1'', Webhook (PaymentIntentSucceeded demo_intent)]
                   (mk_db (mk_event 5 0 10 Open) [])) = [mk_event 5 0 10 Open]"
  by (simp add: confirmPayment_def confirmPayment_try_def handleWebhook_def handlePaymentSucceeded_def
      paid_booking_doc_def Booking_create_def Booking_validate_def truthy_def
      demo_stripe_def demo_intent_def mk_db_def gw_log_def)



section \<open>Status transitions\<close>

lemma length_update_first [simp]: "length (update_first P f xs) = length xs"
  by (induction xs) auto


lemma find_update_first:
  "find P xs = Some b \<Longrightarrow> P (f b) \<Longrightarrow> find P (update_first P f xs) = Some (f b)"
  by (induction xs) (auto split: if_splits)

lemma update_first_id:
  "find P xs = Some b \<Longrightarrow> f b = b \<Longrightarrow> update_first P f xs = xs"
  by (induction xs) (auto split: if_splits)

lemma find_holds: "find P xs = Some x \<Longrightarrow> P x"
  by (induction xs) (auto split: if_splits)

lemma Booking_findById_id: "Booking_findById s i = Some b \<Longrightarrow> b_id b = i"
  using find_holds [of "\<lambda>b. b_id b = i" "bookings s" b] by (simp add: Booking_findById_def)

lemma status_step_refl: "(\<And>b. R b (status b)) \<Longrightarrow> bookings s' = bookings s \<Longrightarrow> status_step R s s'"
  by (simp add: status_step_def)

lemma status_step_gw_log [simp]: "status_step R s (gw_log c s') = status_step R s s'"
  and status_step_Event_inc [simp]: "status_step R s (Event_inc j n s') = status_step R s s'"
  and status_step_User_update [simp]: "status_step R s (User_update j g s') = status_step R s s'"
  by (simp_all add: status_step_def)



lemma transition_of_refl [simp]: "transition_of x s b (status b)"
proof (cases x)
  case (Webhook ev)
  then show ?thesis by (cases ev) simp_all
qed simp_all

lemma status_step_same [simp]: "status_step (transition_of x s0) s s"
  by (simp add: status_step_refl)

















section \<open>What a refund records\<close>

lemma processRefund_try_failure:
  "fst (processRefund_try rt stripe data b s) \<noteq> Inr () \<Longrightarrow>
   bookings (snd (processRefund_try rt stripe data b s)) = bookings s"
  by (auto simp: processRefund_try_def Let_def split: option.splits sum.splits)

lemma processRefund_try_success:
  assumes "fst (processRefund_try rt stripe data b s) = Inr ()"
  shows "\<exists>p r. paymentIntents_retrieve stripe (paymentIntentId b) = Some p
          \<and> refunds_create stripe (paymentIntentId b) (refund_cents rt (f_amount data) p) = Some r
          \<and> bookings (snd (processRefund_try rt stripe data b s))
              = bookings (Booking_update (b_id b)
                  (\<lambda>b. b\<lparr>status := Cancelled, paymentStatus := PayRefunded, refundId := Some r,
                         refundAmount := Some (of_int (refund_cents rt (f_amount data) p) / 100),
                         refundReason := f_reason data\<rparr>) s)"
  using assms
  by (auto simp: processRefund_try_def Let_def Booking_save_def Booking_update_def
      split: option.splits sum.splits if_splits)

lemma processRefund_fst:
  "Booking_findById s (f_bookingId data) = Some b \<Longrightarrow>
   fst (processRefund rt stripe data s) = Inr () \<longleftrightarrow>
     status b \<noteq> Cancelled \<and> paymentStatus b = Paid
     \<and> fst (processRefund_try rt stripe data b s) = Inr ()"
  by (cases "processRefund_try rt stripe data b s"; cases "fst (processRefund_try rt stripe data b s)")
    (auto simp: processRefund_def)

lemma processRefund_snd:
  "Booking_findById s (f_bookingId data) = Some b \<Longrightarrow>
   bookings (snd (processRefund rt stripe data s))
     = (if status b \<noteq> Cancelled \<and> paymentStatus b = Paid
        then bookings (snd (processRefund_try rt stripe data b s)) else bookings s)"
  by (cases "processRefund_try rt stripe data b s"; cases "fst (processRefund_try rt stripe data b s)")
    (auto simp: processRefund_def)

text \<open>
  Claim C4. The gateway refuses a refund above the amount of the intent (\<open>caps_refunds\<close>,
  as Stripe does). Then for every paid booking and every optional requested amount:
  when \<^verbatim>\<open>processRefund\<close> fails it records nothing, the bookings are what they were;
  when it succeeds, the gateway returned the intent \<open>p\<close> and accepted a refund of
  \<open>refund_cents\<close> with id \<open>r\<close>, the stored booking has status cancelled, paymentStatus
  refunded, refundId \<open>r\<close>, refundAmount that many cents in currency units and
  refundReason the reason given, and the recorded refundAmount is at most the amount of
  the intent, the captured amount; it is the whole of it when no amount (or 0) was asked.
\<close>

theorem processRefund_records:
  assumes "caps_refunds stripe"
    and "Booking_findById s (f_bookingId data) = Some b"
    and "paymentStatus b = Paid"
  shows "(fst (processRefund rt stripe data s) \<noteq> Inr () \<longrightarrow>
            bookings (snd (processRefund rt stripe data s)) = bookings s)
       \<and> (fst (processRefund rt stripe data s) = Inr () \<longrightarrow>
            (\<exists>p r. paymentIntents_retrieve stripe (paymentIntentId b) = Some p
               \<and> refunds_create stripe (paymentIntentId b) (refund_cents rt (f_amount data) p) = Some r
               \<and> Booking_findById (snd (processRefund rt stripe data s)) (f_bookingId data)
                   = Some (b\<lparr>status := Cancelled, paymentStatus := PayRefunded, refundId := Some r,
                             refundAmount := Some (of_int (refund_cents rt (f_amount data) p) / 100),
                             refundReason := f_reason data\<rparr>)
               \<and> of_int (refund_cents rt (f_amount data) p) / 100 \<le> (of_int (pi_amount p) / 100 :: rat)
               \<and> (f_amount data = None \<or> f_amount data = Some 0 \<longrightarrow>
                    refund_cents rt (f_amount data) p = pi_amount p)))"
proof (intro conjI impI)
  assume "fst (processRefund rt stripe data s) \<noteq> Inr ()"
  then show "bookings (snd (processRefund rt stripe data s)) = bookings s"
    using processRefund_try_failure [of rt stripe data b s]
    by (auto simp: processRefund_fst [OF assms(2)] processRefund_snd [OF assms(2)])
next
  assume ok: "fst (processRefund rt stripe data s) = Inr ()"
  then have live: "status b \<noteq> Cancelled" and tried: "fst (processRefund_try rt stripe data b s) = Inr ()"
    by (simp_all add: processRefund_fst [OF assms(2)])
  from processRefund_try_success [OF tried] obtain p r where
    p: "paymentIntents_retrieve stripe (paymentIntentId b) = Some p"
    and r: "refunds_create stripe (paymentIntentId b) (refund_cents rt (f_amount data) p) = Some r"
    and upd: "bookings (snd (processRefund_try rt stripe data b s))
              = bookings (Booking_update (b_id b)
                  (\<lambda>b. b\<lparr>status := Cancelled, paymentStatus := PayRefunded, refundId := Some r,
                         refundAmount := Some (of_int (refund_cents rt (f_amount data) p) / 100),
                         refundReason := f_reason data\<rparr>) s)"
    by blast
  have "Booking_findById (snd (processRefund rt stripe data s)) (f_bookingId data)
          = Some (b\<lparr>status := Cancelled, paymentStatus := PayRefunded, refundId := Some r,
                    refundAmount := Some (of_int (refund_cents rt (f_amount data) p) / 100),
                    refundReason := f_reason data\<rparr>)"
    using assms(2,3) live Booking_findById_id [OF assms(2)]
    by (simp add: Booking_findById_def processRefund_snd [OF assms(2)] upd Booking_update_def
        find_update_first)
  moreover have "of_int (refund_cents rt (f_amount data) p) / 100 \<le> (of_int (pi_amount p) / 100 :: rat)"
    using assms(1) p r by (auto simp: caps_refunds_def)
  moreover have "f_amount data = None \<or> f_amount data = Some 0 \<longrightarrow>
      refund_cents rt (f_amount data) p = pi_amount p"
    by (auto simp: refund_cents_def)
  ultimately show "\<exists>p r. paymentIntents_retrieve stripe (paymentIntentId b) = Some p
               \<and> refunds_create stripe (paymentIntentId b) (refund_cents rt (f_amount data) p) = Some r
               \<and> Booking_findById (snd (processRefund rt stripe data s)) (f_bookingId data)
                   = Some (b\<lparr>status := Cancelled, paymentStatus := PayRefunded, refundId := Some r,
                             refundAmount := Some (of_int (refund_cents rt (f_amount data) p) / 100),
                             refundReason := f_reason data\<rparr>)
               \<and> of_int (refund_cents rt (f_amount data) p) / 100 \<le> (of_int (pi_amount p) / 100 :: rat)
               \<and> (f_amount data = None \<or> f_amount data = Some 0 \<longrightarrow>
                    refund_cents rt (f_amount data) p = pi_amount p)"
    using p r by blast
qed

theorem processRefund_records_witness:
  "caps_refunds strict_stripe
   \<and> Booking_findById (mk_db (mk_event 5 1 10 Open) [mk_booking Confirmed Paid 2])
       (f_bookingId (refund_of (Some 5))) = Some (mk_booking Confirmed Paid 2)
   \<and> paymentStatus (mk_booking Confirmed Paid 2) = Paid
   \<and> fst (processRefund sample_rt strict_stripe (refund_of (Some 5))
             (mk_db (mk_event 5 1 10 Open) [mk_booking Confirmed Paid 2])) = Inr ()
   \<and> Booking_findById
         (snd (processRefund sample_rt strict_stripe (refund_of (Some 5))
                 (mk_db (mk_event 5 1 10 Open) [mk_booking Confirmed Paid 2])))
         (f_bookingId (refund_of (Some 5)))
       = Some ((mk_booking Confirmed Paid 2)
                 \<lparr>status := Cancelled, paymentStatus := PayRefunded, refundId := Some ''re_1'',
                  refundAmount := Some 5, refundReason := Some ''schedule conflict''\<rparr>)
   \<and> (5 :: rat) \<le> of_int (pi_amount demo_intent) / 100
   \<and> fst (processRefund sample_rt strict_stripe (refund_of (Some 50))
             (mk_db (mk_event 5 1 10 Open) [mk_booking Confirmed Paid 2]))
       = Inl ''Failed to process refund''
   \<and> bookings (snd (processRefund sample_rt strict_stripe (refund_of (Some 50))
                       (mk_db (mk_event 5 1 10 Open) [mk_booking Confirmed Paid 2])))
       = [mk_booking Confirmed Paid 2]"
proof -
  let ?s = "mk_db (mk_event 5 1 10 Open) [mk_booking Confirmed Paid 2]"
  let ?b = "mk_booking Confirmed Paid 2"
  have caps: "caps_refunds strict_stripe"
    by (auto simp: caps_refunds_def strict_stripe_def demo_intent_def split: if_splits)
  have found: "Booking_findById ?s (f_bookingId (refund_of a)) = Some ?b" for a
    by (simp add: Booking_findById_def mk_db_def mk_booking_def refund_of_def)
  have paid: "paymentStatus ?b = Paid"
    by (simp add: mk_booking_def)
  have ok: "fst (processRefund sample_rt strict_stripe (refund_of (Some 5)) ?s) = Inr ()"
    by (simp add: processRefund_def processRefund_try_def Booking_findById_def mk_db_def mk_booking_def
        refund_of_def strict_stripe_def demo_intent_def refund_cents_def Booking_save_def
        booking_valid_def maxlength_def Let_def)
  have no: "fst (processRefund sample_rt strict_stripe (refund_of (Some 50)) ?s)
              = Inl ''Failed to process refund''"
    by (simp add: processRefund_def processRefund_try_def Booking_findById_def mk_db_def mk_booking_def
        refund_of_def strict_stripe_def demo_intent_def refund_cents_def Let_def)
  have cents: "refund_cents sample_rt (f_amount (refund_of (Some 5))) p = 500" for p
    by (simp add: refund_cents_def refund_of_def)
  have reason: "f_reason (refund_of (Some 5)) = Some ''schedule conflict''"
    by (simp add: refund_of_def)
  from processRefund_records [OF caps found [of "Some 5"] paid, where rt = sample_rt] ok obtain p r where
    p: "paymentIntents_retrieve strict_stripe (paymentIntentId ?b) = Some p"
    and r: "refunds_create strict_stripe (paymentIntentId ?b)
              (refund_cents sample_rt (f_amount (refund_of (Some 5))) p) = Some r"
    and upd: "Booking_findById (snd (processRefund sample_rt strict_stripe (refund_of (Some 5)) ?s))
                (f_bookingId (refund_of (Some 5)))
              = Some (?b
                  \<lparr>status := Cancelled, paymentStatus := PayRefunded, refundId := Some r,
                   refundAmount := Some (of_int (refund_cents sample_rt (f_amount (refund_of (Some 5))) p) / 100),
                   refundReason := f_reason (refund_of (Some 5))\<rparr>)"
    and bound: "of_int (refund_cents sample_rt (f_amount (refund_of (Some 5))) p) / 100
                    \<le> (of_int (pi_amount p) / 100 :: rat)"
    by blast
  have pe: "p = demo_intent"
    using p by (simp add: strict_stripe_def)
  have re: "r = ''re_1''"
    using r by (simp add: strict_stripe_def cents)
  have "(5 :: rat) \<le> of_int (pi_amount demo_intent) / 100"
    using bound by (simp add: cents pe)
  moreover have "Booking_findById (snd (processRefund sample_rt strict_stripe (refund_of (Some 5)) ?s))
                (f_bookingId (refund_of (Some 5)))
              = Some (?b
                  \<lparr>status := Cancelled, paymentStatus := PayRefunded, refundId := Some ''re_1'',
                   refundAmount := Some 5, refundReason := Some ''schedule conflict''\<rparr>)"
    using upd by (simp add: cents re reason)
  moreover have "bookings (snd (processRefund sample_rt strict_stripe (refund_of (Some 50)) ?s))
      = [mk_booking Confirmed Paid 2]"
    using processRefund_records [OF caps found [of "Some 50"] paid, where rt = sample_rt] no
    by (simp add: mk_db_def)
  ultimately show ?thesis
    using found [of "Some 5"] ok no caps paid by blast
qed

section \<open>The capacity checks\<close>

text \<open>
  Claim C5 as stated fails in both directions: \<^verbatim>\<open>createPaymentIntent\<close> refuses one
  place at an event with currentParticipants 0 of 1 because a pending booking exists;
  \<^verbatim>\<open>createBooking\<close> does not answer with the capacity error for two places at an
  event with one place left; and \<^verbatim>\<open>createPaymentIntent\<close> issues an intent for two
  places at an event with currentParticipants 1 of 2 and no bookings.
\<close>

theorem capacity_check_differs:
  "currentParticipants (mk_event 1 0 10 Open) + 1 \<le> maxParticipants (mk_event 1 0 10 Open)
   \<and> fst (createPaymentIntent sample_rt demo_stripe ''usd'' 50 \<lparr>i_eventId = 1, i_userId = 8, i_quantity = 1\<rparr>
             (mk_db (mk_event 1 0 10 Open) [mk_booking Pending PayPending 1]))
       = Inl ''Not enough spots available''
   \<and> currentParticipants (mk_event 1 0 10 Open) + 2 > maxParticipants (mk_event 1 0 10 Open)
   \<and> fst (createBooking sample_rt \<lparr>a_id = 8, a_role = USER\<rparr>
             \<lparr>r_eventId = 1, r_quantity = Some 2, r_specialRequests = None, r_notes = None\<rparr>
             (mk_db (mk_event 1 0 10 Open) []))
       = ErrorResponse ''Booking validation failed'' 500
   \<and> currentParticipants (mk_event 2 1 10 Open) + 2 > maxParticipants (mk_event 2 1 10 Open)
   \<and> fst (createPaymentIntent sample_rt demo_stripe ''usd'' 50 \<lparr>i_eventId = 1, i_userId = 8, i_quantity = 2\<rparr>
             (mk_db (mk_event 2 1 10 Open) []))
       = Inr \<lparr>clientSecret = ''secret'', r_paymentIntentId = ''pi_2'', r_amount = 2000,
              r_currency = ''usd''\<rparr>"
  by (simp add: createPaymentIntent_def createBooking_def Event_findById_def mk_db_def mk_event_def
      mk_booking_def Booking_create_def Booking_validate_def demo_stripe_def)

text \<open>
  Claim C5, amended. \<^verbatim>\<open>createBooking\<close> answers \<^verbatim>\<open>Event is full\<close> exactly when the
  event exists, is open and has currentParticipants >= maxParticipants, whatever the
  quantity requested. \<^verbatim>\<open>createPaymentIntent\<close> throws \<^verbatim>\<open>Not enough spots available\<close>
  exactly when the event exists, is open, is not in the past and the number of its
  bookings that are not cancelled plus the quantity exceeds maxParticipants.
\<close>

theorem capacity_rejection:
  "(fst (createBooking rt u body s) = ErrorResponse ''Event is full'' 400
      \<longleftrightarrow> (\<exists>event. Event_findById s (r_eventId body) = Some event \<and> e_status event = Open
                    \<and> maxParticipants event \<le> currentParticipants event))
   \<and> (fst (createPaymentIntent rt g c now data s) = Inl ''Not enough spots available''
      \<longleftrightarrow> (\<exists>event. Event_findById s (i_eventId data) = Some event \<and> e_status event = Open
                    \<and> \<not> date event < now
                    \<and> maxParticipants event < active_count (i_eventId data) s + i_quantity data))"
proof
  show "fst (createBooking rt u body s) = ErrorResponse ''Event is full'' 400
      \<longleftrightarrow> (\<exists>event. Event_findById s (r_eventId body) = Some event \<and> e_status event = Open
                    \<and> maxParticipants event \<le> currentParticipants event)"
    by (simp add: createBooking_def Booking_create_no_quantity split: option.split)
  show "fst (createPaymentIntent rt g c now data s) = Inl ''Not enough spots available''
      \<longleftrightarrow> (\<exists>event. Event_findById s (i_eventId data) = Some event \<and> e_status event = Open
                    \<and> \<not> date event < now
                    \<and> maxParticipants event < active_count (i_eventId data) s + i_quantity data)"
    by (simp add: createPaymentIntent_def active_count_def Let_def split: option.split prod.split)
qed

theorem capacity_rejection_witness:
  "fst (createBooking sample_rt \<lparr>a_id = 8, a_role = USER\<rparr>
          \<lparr>r_eventId = 1, r_quantity = Some 1, r_specialRequests = None, r_notes = None\<rparr>
          (mk_db (mk_event 1 1 10 Open) [])) = ErrorResponse ''Event is full'' 400
   \<and> fst (createPaymentIntent sample_rt demo_stripe ''usd'' 50 \<lparr>i_eventId = 1, i_userId = 8, i_quantity = 1\<rparr>
             (mk_db (mk_event 1 0 10 Open) [mk_booking Pending PayPending 1]))
       = Inl ''Not enough spots available''"
proof
  have "\<exists>event. Event_findById (mk_db (mk_event 1 1 10 Open) []) 1 = Some event \<and> e_status event = Open
          \<and> maxParticipants event \<le> currentParticipants event"
    by (simp add: Event_findById_def mk_db_def mk_event_def)
  then show "fst (createBooking sample_rt \<lparr>a_id = 8, a_role = USER\<rparr>
          \<lparr>r_eventId = 1, r_quantity = Some 1, r_specialRequests = None, r_notes = None\<rparr>
          (mk_db (mk_event 1 1 10 Open) [])) = ErrorResponse ''Event is full'' 400"
    using capacity_rejection by simp
  have "\<exists>event. Event_findById (mk_db (mk_event 1 0 10 Open) [mk_booking Pending PayPending 1]) 1 = Some event
          \<and> e_status event = Open \<and> \<not> date event < 50
          \<and> maxParticipants event
              < active_count 1 (mk_db (mk_event 1 0 10 Open) [mk_booking Pending PayPending 1]) + 1"
    by (simp add: Event_findById_def mk_db_def mk_event_def mk_booking_def active_count_def)
  then show "fst (createPaymentIntent sample_rt demo_stripe ''usd'' 50 \<lparr>i_eventId = 1, i_userId = 8, i_quantity = 1\<rparr>
             (mk_db (mk_event 1 0 10 Open) [mk_booking Pending PayPending 1]))
       = Inl ''Not enough spots available''"
    using capacity_rejection by simp
qed

section \<open>The participant counter and the event status\<close>

text \<open>
  Claim C1 (the code departs from it). An event counts one participant for its one
  confirmed booking, of quantity 2. A full refund cancels the booking and lowers the
  counter by the quantity: currentParticipants is -1 and no confirmed or completed
  booking is left. In a second state the one booking is completed, of quantity 1; its
  owner cancels it and the counter stays at 1, since \<^verbatim>\<open>cancelBooking\<close> lowers it for a
  confirmed booking only.
\<close>

theorem counter_breaks_on_refund:
  "participants_consistent (mk_db (mk_event 5 1 10 Open) [mk_booking Confirmed Paid 2])
   \<and> \<not> participants_consistent
         (run sample_rt [ProcessRefund demo_stripe (refund_of None)]
              (mk_db (mk_event 5 1 10 Open) [mk_booking Confirmed Paid 2]))
   \<and> map currentParticipants
         (events (run sample_rt [ProcessRefund demo_stripe (refund_of None)]
                      (mk_db (mk_event 5 1 10 Open) [mk_booking Confirmed Paid 2]))) = [- 1]
   \<and> counted 1 (run sample_rt [ProcessRefund demo_stripe (refund_of None)]
                      (mk_db (mk_event 5 1 10 Open) [mk_booking Confirmed Paid 2])) = 0
   \<and> participants_consistent (mk_db (mk_event 5 1 10 Open) [mk_booking Completed Paid 1])
   \<and> \<not> participants_consistent
         (run sample_rt [CancelBooking \<lparr>a_id = 7, a_role = USER\<rparr> 20]
              (mk_db (mk_event 5 1 10 Open) [mk_booking Completed Paid 1]))"
  by (simp add: participants_consistent_def counted_def mk_db_def mk_event_def mk_booking_def
      processRefund_def processRefund_try_def Booking_findById_def demo_stripe_def demo_intent_def
      refund_of_def refund_cents_def maxlength_def gw_log_def Event_inc_def Booking_update_def
      Booking_save_def booking_valid_def cancelBooking_def cancelBooking_release_def)

text \<open>\<^verbatim>\<open>$inc\<close> never touches an event's status, so neither does a refund.\<close>

lemma Event_inc_keeps_status: "map e_status (events (Event_inc i n s)) = map e_status (events s)"
  by (simp add: Event_inc_def map_update_first)

lemma events_Booking_update [simp]: "events (Booking_update i f s) = events s"
  by (simp add: Booking_update_def)

lemma processRefund_keeps_event_status:
  "map e_status (events (snd (processRefund rt g data s))) = map e_status (events s)"
  by (auto simp: processRefund_def processRefund_try_def Let_def Event_inc_keeps_status
      split: option.split sum.split dest!: Booking_save_Inr)

text \<open>
  Claim C9 (the code departs from it). A full event (1 of 1) loses its only participant
  through a refund; currentParticipants drops to 0 and the status stays full, because
  the counter is changed by an update query that does not run the \<^verbatim>\<open>save\<close> hook.
\<close>

theorem refund_leaves_event_full:
  "events (snd (processRefund sample_rt demo_stripe (refund_of None)
                  (mk_db (mk_event 1 1 10 Full) [mk_booking Confirmed Paid 1])))
   = [mk_event 1 0 10 Full]"
  by (simp add: mk_db_def mk_event_def mk_booking_def
      processRefund_def processRefund_try_def Booking_findById_def demo_stripe_def demo_intent_def
      refund_of_def refund_cents_def maxlength_def gw_log_def Event_inc_def Booking_update_def
      Booking_save_def booking_valid_def)

text \<open>
  For comparison, cancelling the same booking goes through \<^verbatim>\<open>event.save()\<close> and
  reopens the event.
\<close>

lemma cancel_reopens_event:
  "events (snd (cancelBooking sample_rt \<lparr>a_id = 7, a_role = USER\<rparr> 20
                  (mk_db (mk_event 1 1 10 Full) [mk_booking Confirmed Paid 1])))
   = [(mk_event 1 0 10 Open)\<lparr>participants := []\<rparr>]"
  by (simp add: cancelBooking_def cancelBooking_release_def Booking_findById_def Booking_update_def
      Booking_save_def booking_valid_def maxlength_def
      Event_findById_def Event_save_def event_valid_def sample_rt_def pre_save_def
      User_findById_def User_update_def mk_db_def mk_booking_def mk_event_def)

section \<open>Cancelling twice\<close>

text \<open>For every booking that is already cancelled and meets the schema's validators,
  and every actor allowed to cancel it, \<^verbatim>\<open>cancelBooking\<close> answers success and changes
  nothing.\<close>

lemma cancelBooking_already_cancelled:
  assumes "Booking_findById s i = Some b" and "status b = Cancelled"
    and "userId b = a_id u \<or> hostId b = a_id u \<or> a_role u = ADMIN"
    and "booking_valid b"
  shows "cancelBooking rt u i s = (SuccessResponse (Some b) ''Booking cancelled successfully'' None, s)"
proof -
  have same: "b\<lparr>status := Cancelled\<rparr> = b"
    using assms(2) by simp
  have "update_first (\<lambda>x. b_id x = i) (\<lambda>x. x\<lparr>status := Cancelled\<rparr>) (bookings s) = bookings s"
    by (rule update_first_id [of _ _ b]) (use assms(1) same in \<open>simp_all add: Booking_findById_def\<close>)
  then have "Booking_update i (\<lambda>x. x\<lparr>status := Cancelled\<rparr>) s = s"
    by (simp add: Booking_update_def)
  moreover have "booking_valid (b\<lparr>status := Cancelled\<rparr>)"
    using assms(4) by (simp add: booking_valid_def)
  ultimately have saved: "Booking_save b (\<lambda>x. x\<lparr>status := Cancelled\<rparr>) s = Inr s"
    using Booking_findById_id [OF assms(1)] by (simp add: Booking_save_def)
  have "cancelBooking_release rt b s = Inr s"
    using assms(2) by (simp add: cancelBooking_release_def)
  then show ?thesis
    using assms(1,3) saved by (auto simp: cancelBooking_def same)
qed

text \<open>
  Claim C8 (the code departs from it). The owner cancels a booking that is already
  cancelled: the controller answers success, not an error.
\<close>

theorem cancelBooking_twice_succeeds:
  "cancelBooking sample_rt \<lparr>a_id = 7, a_role = USER\<rparr> 20 (mk_db (mk_event 5 0 10 Open) [mk_booking Cancelled Paid 1])
   = (SuccessResponse (Some (mk_booking Cancelled Paid 1)) ''Booking cancelled successfully'' None,
      mk_db (mk_event 5 0 10 Open) [mk_booking Cancelled Paid 1])"
  by (simp add: cancelBooking_def cancelBooking_release_def Booking_findById_def Booking_update_def
      Booking_save_def booking_valid_def maxlength_def mk_db_def mk_booking_def)

end
